theory Spec2Isabelle
  imports
    Complex_Main
    "HOL-Library.Sublist"
    "HOL-Library.Product_Lexorder"
    "HOL-Library.Char_ord"
    "HOL-Library.List_Lexorder"
begin

section \<open>The sales dashboard of \<^verbatim>\<open>project.py\<close>\<close>

text \<open>
  The script is a straight line of dataframe calls. A column (a pandas Series) is a list
  with one entry per row, a missing entry (NaN, NaT, None) is \<open>None\<close>, and a
  dataframe is the list of its rows. A number is its exact value: the rounding, the
  overflow and the infinities of 64-bit floats are outside this development. Whole
  numbers are kept apart from floats, since a column of whole numbers is an int64 column
  and the product of two such columns (line 67) wraps around.
\<close>

subsection \<open>Data\<close>

text \<open>A number as the library holds it: a whole number (a Python or int64 integer) or a float.\<close>

datatype number = Whole int | Frac rat

fun value_of :: "number \<Rightarrow> rat" where
  "value_of (Whole n) = of_int n"
| "value_of (Frac x) = x"

text \<open>A cell as the CSV reader delivers it: empty, a number, or text.\<close>

datatype cell = NA | Num number | Str string

text \<open>
  A timestamp is (year, month, day, second of the day), ordered lexicographically; a
  calendar date is (year, month, day).
\<close>

type_synonym timestamp = "int \<times> nat \<times> nat \<times> nat"
type_synonym date = "int \<times> nat \<times> nat"

text \<open>
  A row of \<open>raw_df\<close> after the rename of line 56, restricted to the columns the script
  reads: Price and Quantity still hold raw cells. \<open>src_Date\<close> is the entry of
  \<open>pd.to_datetime(raw_df[date_col], errors="coerce")\<close>, a library call that is taken as
  given: \<open>None\<close> stands for NaT.
\<close>

record raw_row =
  src_Region :: "string option"
  src_Product :: "string option"
  src_Price :: cell
  src_Quantity :: cell
  src_Date :: "timestamp option"

text \<open>A row of \<open>df\<close> after line 71.\<close>

record row =
  Region :: "string option"
  Product :: "string option"
  Price :: "rat option"
  Quantity :: "rat option"
  Revenue :: "rat option"
  Date :: "timestamp option"

subsection \<open>Numeric coercion and Revenue (lines 18-19 and 65-67)\<close>

text \<open>
  \<open>pd.to_numeric(series, errors="coerce")\<close>: a number stays, an empty cell is NaN, text
  becomes what the library's number parser makes of it. The parser is a parameter.
\<close>

definition safe_numeric :: "(string \<Rightarrow> number option) \<Rightarrow> cell list \<Rightarrow> number option list" where
  "safe_numeric parse series =
     map (\<lambda>c. case c of NA \<Rightarrow> None | Num x \<Rightarrow> Some x | Str s \<Rightarrow> parse s) series"

text \<open>
  One such parser, for the worked example: plain decimal literals, an optional minus sign,
  digits, and an optional fraction after a point, which makes the number a float. Any
  other text is not a number.
\<close>

definition digit_of :: "char \<Rightarrow> nat option" where
  "digit_of c = (if CHR ''0'' \<le> c \<and> c \<le> CHR ''9'' then Some (of_char c - 48) else None)"

fun digits_value :: "string \<Rightarrow> nat \<Rightarrow> nat option" where
  "digits_value [] acc = Some acc"
| "digits_value (c # cs) acc =
     (case digit_of c of None \<Rightarrow> None | Some v \<Rightarrow> digits_value cs (10 * acc + v))"

definition parse_decimal :: "string \<Rightarrow> number option" where
  "parse_decimal s =
     (let neg = (take 1 s = ''-'');
          body = (if neg then drop 1 s else s);
          whole = takeWhile (\<lambda>c. c \<noteq> CHR ''.'') body;
          frac = drop 1 (dropWhile (\<lambda>c. c \<noteq> CHR ''.'') body)
      in if whole = [] then None
         else (case (digits_value whole 0, digits_value frac 0) of
                 (Some a, Some b) \<Rightarrow>
                   (if CHR ''.'' \<in> set body
                    then Some (Frac ((if neg then - 1 else 1) *
                                     (of_nat a + of_nat b / 10 ^ length frac)))
                    else Some (Whole ((if neg then - 1 else 1) * int a)))
               | _ \<Rightarrow> None))"

text \<open>
  The dtype of a coerced column: int64 when every entry is a whole number in the int64
  range, float64 as soon as an entry is missing or a float. (A whole number outside that
  range makes the column uint64 or a column of Python objects; it is taken with the
  floats here.)
\<close>

definition int64_column :: "number option list \<Rightarrow> bool" where
  "int64_column series =
     list_all (\<lambda>x. case x of Some (Whole n) \<Rightarrow> - (2 ^ 63) \<le> n \<and> n < 2 ^ 63 | _ \<Rightarrow> False)
       series"

text \<open>An int64 result: the value modulo \<open>2 ^ 64\<close>, read as a signed number.\<close>

definition wrap64 :: "int \<Rightarrow> int" where
  "wrap64 n = (n + 2 ^ 63) mod 2 ^ 64 - 2 ^ 63"

text \<open>Product of two float entries: NaN when either operand is NaN.\<close>

fun mul_cell :: "rat option \<Rightarrow> rat option \<Rightarrow> rat option" where
  "mul_cell (Some p) (Some q) = Some (p * q)"
| "mul_cell _ _ = None"

text \<open>Product of two int64 entries: it wraps around.\<close>

fun mul_int64 :: "number option \<Rightarrow> number option \<Rightarrow> rat option" where
  "mul_int64 (Some (Whole p)) (Some (Whole q)) = Some (of_int (wrap64 (p * q)))"
| "mul_int64 _ _ = None"

text \<open>
  \<open>a * b\<close> on two columns, element by element: int64 arithmetic when both columns are
  int64, float arithmetic otherwise.
\<close>

definition mul_series :: "number option list \<Rightarrow> number option list \<Rightarrow> rat option list" where
  "mul_series a b =
     map (\<lambda>(x, y). if int64_column a \<and> int64_column b then mul_int64 x y
                   else mul_cell (map_option value_of x) (map_option value_of y))
       (zip a b)"

text \<open>
  Lines 65-71: the three column assignments, then the rows of \<open>df\<close>. A row keeps the
  value of each number.
\<close>

definition df :: "(string \<Rightarrow> number option) \<Rightarrow> raw_row list \<Rightarrow> row list" where
  "df parse raw_df =
     (let price = safe_numeric parse (map src_Price raw_df);
          quantity = safe_numeric parse (map src_Quantity raw_df);
          revenue = mul_series price quantity
      in map (\<lambda>(r, p, q, v).
                \<lparr>Region = src_Region r, Product = src_Product r,
                 Price = map_option value_of p, Quantity = map_option value_of q,
                 Revenue = v, Date = src_Date r\<rparr>)
           (zip raw_df (zip price (zip quantity revenue))))"

subsection \<open>Filters (lines 74-95)\<close>

text \<open>
  \<open>Series.isin(values)\<close> for a selection made in a multiselect whose options are the
  column's non-missing values (lines 74-78): a missing entry is never selected.
\<close>

definition isin :: "'a option list \<Rightarrow> 'a list \<Rightarrow> bool list" where
  "isin series values = map (\<lambda>x. case x of None \<Rightarrow> False | Some v \<Rightarrow> v \<in> set values) series"

text \<open>\<open>Series.between(left, right, inclusive="both")\<close>: NaN compares false.\<close>

definition between :: "rat option list \<Rightarrow> rat \<Rightarrow> rat \<Rightarrow> bool list" where
  "between series left right =
     map (\<lambda>x. case x of None \<Rightarrow> False | Some v \<Rightarrow> left \<le> v \<and> v \<le> right) series"

text \<open>The element-wise \<open>&\<close> of two boolean columns.\<close>

definition mask_and :: "bool list \<Rightarrow> bool list \<Rightarrow> bool list" where
  "mask_and a b = map (\<lambda>(x, y). x \<and> y) (zip a b)"

text \<open>\<open>frame[mask]\<close>: the rows whose mask entry is true, in order.\<close>

definition select :: "'r list \<Rightarrow> bool list \<Rightarrow> 'r list" where
  "select frame flags = map fst (filter snd (zip frame flags))"

text \<open>The sidebar's choices: two multiselects and two range sliders.\<close>

record filter_spec =
  region_filter :: "string list"
  product_filter :: "string list"
  price_range :: "rat \<times> rat"
  qty_range :: "rat \<times> rat"

text \<open>Lines 90-95.\<close>

definition filtered_df :: "row list \<Rightarrow> filter_spec \<Rightarrow> row list" where
  "filtered_df d fs =
     select d
       (mask_and
         (mask_and
           (mask_and (isin (map Region d) (region_filter fs))
                     (isin (map Product d) (product_filter fs)))
           (between (map Price d) (fst (price_range fs)) (snd (price_range fs))))
         (between (map Quantity d) (fst (qty_range fs)) (snd (qty_range fs))))"

text \<open>
  The defaults of lines 74-88: every non-missing value selected, and the sliders at the
  observed minimum and maximum (0 when the column has no number at all).
\<close>

definition dropna :: "'a option list \<Rightarrow> 'a list" where
  "dropna series = concat (map (\<lambda>x. case x of None \<Rightarrow> [] | Some v \<Rightarrow> [v]) series)"

definition series_min :: "'a::linorder option list \<Rightarrow> 'a option" where
  "series_min series = (case dropna series of [] \<Rightarrow> None | v # vs \<Rightarrow> Some (fold min vs v))"

definition series_max :: "'a::linorder option list \<Rightarrow> 'a option" where
  "series_max series = (case dropna series of [] \<Rightarrow> None | v # vs \<Rightarrow> Some (fold max vs v))"

definition default_filters :: "row list \<Rightarrow> filter_spec" where
  "default_filters d =
     (let region_values = sort (remdups (dropna (map Region d)));
          product_values = sort (remdups (dropna (map Product d)));
          price_min = (case series_min (map Price d) of Some v \<Rightarrow> v | None \<Rightarrow> 0);
          price_max = (case series_max (map Price d) of Some v \<Rightarrow> v | None \<Rightarrow> 0);
          qty_min = (case series_min (map Quantity d) of Some v \<Rightarrow> v | None \<Rightarrow> 0);
          qty_max = (case series_max (map Quantity d) of Some v \<Rightarrow> v | None \<Rightarrow> 0)
      in \<lparr>region_filter = region_values, product_filter = product_values,
          price_range = (price_min, price_max), qty_range = (qty_min, qty_max)\<rparr>)"

text \<open>The condition of lines 91-94 on one row.\<close>

definition keeps :: "filter_spec \<Rightarrow> row \<Rightarrow> bool" where
  "keeps fs r =
     ((case Region r of None \<Rightarrow> False | Some v \<Rightarrow> v \<in> set (region_filter fs)) \<and>
      (case Product r of None \<Rightarrow> False | Some v \<Rightarrow> v \<in> set (product_filter fs)) \<and>
      (case Price r of None \<Rightarrow> False
       | Some v \<Rightarrow> fst (price_range fs) \<le> v \<and> v \<le> snd (price_range fs)) \<and>
      (case Quantity r of None \<Rightarrow> False
       | Some v \<Rightarrow> fst (qty_range fs) \<le> v \<and> v \<le> snd (qty_range fs)))"

subsection \<open>Date range (lines 97-107)\<close>

text \<open>\<open>Timestamp.date()\<close> drops the time of day; \<open>pd.to_datetime\<close> of a date is its midnight.\<close>

definition date_of :: "timestamp \<Rightarrow> date" where
  "date_of t = (case t of (y, m, d, s) \<Rightarrow> (y, m, d))"

definition to_datetime :: "date \<Rightarrow> timestamp" where
  "to_datetime dt = (case dt of (y, m, d) \<Rightarrow> (y, m, d, 0))"

text \<open>The comparisons \<open>series >= t\<close> and \<open>series <= t\<close>: NaT compares false.\<close>

definition series_ge :: "timestamp option list \<Rightarrow> timestamp \<Rightarrow> bool list" where
  "series_ge series t = map (\<lambda>x. case x of None \<Rightarrow> False | Some v \<Rightarrow> t \<le> v) series"

definition series_le :: "timestamp option list \<Rightarrow> timestamp \<Rightarrow> bool list" where
  "series_le series t = map (\<lambda>x. case x of None \<Rightarrow> False | Some v \<Rightarrow> v \<le> t) series"

text \<open>
  Lines 97-107. \<open>date_input\<close> is the date picker: given its default pair it returns the
  dates the user has picked, two of them once a range is complete. The untouched picker
  returns its default.
\<close>

definition default_date_input :: "date \<times> date \<Rightarrow> date list" where
  "default_date_input dflt = [fst dflt, snd dflt]"

definition date_filtered :: "bool \<Rightarrow> (date \<times> date \<Rightarrow> date list) \<Rightarrow> row list \<Rightarrow> row list" where
  "date_filtered has_date date_input fd =
     (if has_date then
        (case (series_min (map Date fd), series_max (map Date fd)) of
           (Some date_min, Some date_max) \<Rightarrow>
             (case date_input (date_of date_min, date_of date_max) of
                [d0, d1] \<Rightarrow>
                  (let start_date = to_datetime d0; end_date = to_datetime d1
                   in select fd (mask_and (series_ge (map Date fd) start_date)
                                          (series_le (map Date fd) end_date)))
              | _ \<Rightarrow> fd)
         | _ \<Rightarrow> fd)
      else fd)"

text \<open>The table every later section of the page reads.\<close>

definition final_df ::
  "bool \<Rightarrow> (date \<times> date \<Rightarrow> date list) \<Rightarrow> row list \<Rightarrow> filter_spec \<Rightarrow> row list" where
  "final_df has_date date_input d fs = date_filtered has_date date_input (filtered_df d fs)"

subsection \<open>Key metrics and data quality (lines 110-123)\<close>

text \<open>\<open>Series.sum()\<close> skips NaN, and is 0 on no value; \<open>Series.mean()\<close> is NaN then.\<close>

definition series_sum :: "rat option list \<Rightarrow> rat" where
  "series_sum series = sum_list (dropna series)"

definition series_mean :: "rat option list \<Rightarrow> rat option" where
  "series_mean series =
     (case dropna series of [] \<Rightarrow> None
      | v # vs \<Rightarrow> Some (sum_list (v # vs) / of_nat (length (v # vs))))"

definition total_revenue :: "row list \<Rightarrow> rat" where
  "total_revenue fd = series_sum (map Revenue fd)"

definition total_units :: "row list \<Rightarrow> rat" where
  "total_units fd = series_sum (map Quantity fd)"

definition avg_price :: "row list \<Rightarrow> rat option" where
  "avg_price fd = series_mean (map Price fd)"

definition avg_units :: "row list \<Rightarrow> rat option" where
  "avg_units fd = series_mean (map Quantity fd)"

text \<open>\<open>frame.isna().sum()\<close>, column by column, for the columns of \<open>row\<close>.\<close>

definition isna_sum :: "'a option list \<Rightarrow> nat" where
  "isna_sum series = length (filter (\<lambda>x. x = None) series)"

definition missing :: "bool \<Rightarrow> row list \<Rightarrow> (string \<times> nat) list" where
  "missing has_date fd =
     [(''Region'', isna_sum (map Region fd)), (''Product'', isna_sum (map Product fd)),
      (''Price'', isna_sum (map Price fd)), (''Quantity'', isna_sum (map Quantity fd)),
      (''Revenue'', isna_sum (map Revenue fd))] @
     (if has_date then [(''Date'', isna_sum (map Date fd))] else [])"

subsection \<open>Aggregates (lines 132-158)\<close>

text \<open>
  \<open>frame.groupby(key, as_index=False)[value].sum()\<close>: one entry per distinct non-missing
  key, keys ascending, the values of each group summed.
\<close>

definition groupby_sum ::
  "('r \<Rightarrow> 'k::linorder option) \<Rightarrow> ('r \<Rightarrow> rat option) \<Rightarrow> 'r list \<Rightarrow> ('k \<times> rat) list" where
  "groupby_sum key val frame =
     map (\<lambda>k. (k, series_sum (map val (filter (\<lambda>r. key r = Some k) frame))))
       (sort (remdups (dropna (map key frame))))"





text \<open>\<open>dt.to_period("M").dt.to_timestamp()\<close>: midnight of the first day of the month.\<close>

definition month_start :: "timestamp \<Rightarrow> timestamp" where
  "month_start t = (case t of (y, m, d, s) \<Rightarrow> (y, m, 1, 0))"

text \<open>Lines 153-158: drop the rows without a Date, add Month, group by it.\<close>

definition trend_df :: "row list \<Rightarrow> (timestamp \<times> rat) list" where
  "trend_df fd =
     (let dated = filter (\<lambda>r. Date r \<noteq> None) fd
      in groupby_sum (\<lambda>r. map_option month_start (Date r)) Revenue dated)"

subsection \<open>Columns (lines 32-75 and 171-176)\<close>

text \<open>
  The sidebar's column mapping: each of the four selectboxes returns one of the table's
  headers, the fifth returns a header or the text \<open>(none)\<close>.
\<close>

record mapping =
  region_col :: string
  product_col :: string
  price_col :: string
  quantity_col :: string
  date_col :: string

text \<open>
  The dictionary literal of lines 57-62. A key written twice keeps its last value, so the
  entries are stored in the order written.
\<close>

definition rename_dict :: "mapping \<Rightarrow> (string \<rightharpoonup> string)" where
  "rename_dict m =
     [region_col m \<mapsto> ''Region'', product_col m \<mapsto> ''Product'',
      price_col m \<mapsto> ''Price'', quantity_col m \<mapsto> ''Quantity'']"

text \<open>\<open>frame.rename(columns=d)\<close>: a label that is a key gets its value, every other stays.\<close>

definition rename :: "(string \<rightharpoonup> string) \<Rightarrow> string list \<Rightarrow> string list" where
  "rename d cols = map (\<lambda>c. case d c of None \<Rightarrow> c | Some n \<Rightarrow> n) cols"

datatype py_error = KeyError string | TypeError | ValueError | AttributeError

text \<open>
  \<open>frame[name]\<close>: KeyError when no column has the label, a Series when one has, a
  DataFrame when several have.
\<close>

datatype item = Series | Frame

definition getitem :: "string list \<Rightarrow> string \<Rightarrow> py_error + item" where
  "getitem cols name =
     (if name \<notin> set cols then Inl (KeyError name)
      else if count_list cols name = 1 then Inr Series else Inr Frame)"

text \<open>A call that takes a Series raises its own error \<open>e\<close> on a DataFrame.\<close>

definition need_series :: "py_error \<Rightarrow> py_error + item \<Rightarrow> py_error + unit" where
  "need_series e r =
     (case r of Inl k \<Rightarrow> Inl k | Inr Series \<Rightarrow> Inr () | Inr Frame \<Rightarrow> Inl e)"

text \<open>\<open>frame[name] = series\<close>: a new label goes last, a present one keeps its place.\<close>

definition setitem :: "string list \<Rightarrow> string \<Rightarrow> string list" where
  "setitem cols name = (if name \<in> set cols then cols else cols @ [name])"

text \<open>
  The labels of \<open>df\<close> once lines 56-75 have run, or the first error raised there:
  \<open>pd.to_numeric\<close> of a DataFrame is a TypeError (lines 65, 66), \<open>pd.to_datetime\<close> of
  one whose labels are not year, month, day is a ValueError (line 71), and a DataFrame
  has no \<open>unique\<close> (lines 74, 75).
\<close>

definition df_columns :: "string list \<Rightarrow> mapping \<Rightarrow> py_error + string list" where
  "df_columns columns m =
     (let c0 = rename (rename_dict m) columns in
      case need_series TypeError (getitem c0 ''Price'') of Inl e \<Rightarrow> Inl e | Inr _ \<Rightarrow>
      (case need_series TypeError (getitem c0 ''Quantity'') of Inl e \<Rightarrow> Inl e | Inr _ \<Rightarrow>
      (let c1 = setitem c0 ''Revenue'' in
       case (if date_col m \<noteq> ''(none)''
             then (case need_series ValueError (getitem columns (date_col m)) of
                     Inl e \<Rightarrow> Inl e | Inr _ \<Rightarrow> Inr (setitem c1 ''Date''))
             else Inr c1) of Inl e \<Rightarrow> Inl e | Inr c2 \<Rightarrow>
       (case need_series AttributeError (getitem c2 ''Region'') of Inl e \<Rightarrow> Inl e | Inr _ \<Rightarrow>
       (case need_series AttributeError (getitem c2 ''Product'') of Inl e \<Rightarrow> Inl e | Inr _ \<Rightarrow>
          Inr c2)))))"

text \<open>
  \<open>frame.to_csv(index=False)\<close>, as records rather than text: the header record is the
  frame's labels, and each row gives one data record.
\<close>

definition to_csv :: "string list \<Rightarrow> 'r list \<Rightarrow> string list \<times> 'r list" where
  "to_csv cols frame = (cols, frame)"

text \<open>The two conditions on a table and a mapping under which the columns are settled below.\<close>

definition role_cols :: "mapping \<Rightarrow> string list" where
  "role_cols m = [region_col m, product_col m, price_col m, quantity_col m]"

definition canonical_names :: "string list" where
  "canonical_names = [''Region'', ''Product'', ''Price'', ''Quantity'']"

definition plain_table :: "string list \<Rightarrow> mapping \<Rightarrow> bool" where
  "plain_table columns m \<longleftrightarrow>
     distinct columns \<and>
     list_all (\<lambda>c. c \<in> set columns) (role_cols m) \<and>
     (date_col m = ''(none)'' \<or> date_col m \<in> set columns) \<and>
     list_all (\<lambda>n. n \<notin> set columns \<or> n \<in> set (role_cols m)) canonical_names"

section \<open>Lemmas\<close>

lemma zip_map4:
  "map F (zip xs (zip (map f xs) (zip (map g xs) (map h xs)))) =
     map (\<lambda>r. F (r, f r, g r, h r)) xs"
  by (induction xs) simp_all

lemma zip_map2: "map (\<lambda>(x, y). k x y) (zip (map f xs) (map g xs)) = map (\<lambda>r. k (f r) (g r)) xs"
  by (induction xs) simp_all

lemma df_rowwise:
  "df parse raw_df =
     map (\<lambda>r. let p = (case src_Price r of NA \<Rightarrow> None | Num x \<Rightarrow> Some x | Str s \<Rightarrow> parse s);
                  q = (case src_Quantity r of NA \<Rightarrow> None | Num x \<Rightarrow> Some x | Str s \<Rightarrow> parse s)
              in \<lparr>Region = src_Region r, Product = src_Product r,
                  Price = map_option value_of p, Quantity = map_option value_of q,
                  Revenue =
                    (if int64_column (safe_numeric parse (map src_Price raw_df)) \<and>
                        int64_column (safe_numeric parse (map src_Quantity raw_df))
                     then mul_int64 p q
                     else mul_cell (map_option value_of p) (map_option value_of q)),
                  Date = src_Date r\<rparr>) raw_df"
proof -
  let ?c = "\<lambda>c. case c of NA \<Rightarrow> None | Num x \<Rightarrow> Some x | Str s \<Rightarrow> parse s"
  have p: "safe_numeric parse (map src_Price raw_df) = map (\<lambda>r. ?c (src_Price r)) raw_df"
    by (simp add: safe_numeric_def o_def)
  have q: "safe_numeric parse (map src_Quantity raw_df) = map (\<lambda>r. ?c (src_Quantity r)) raw_df"
    by (simp add: safe_numeric_def o_def)
  show ?thesis
    unfolding df_def Let_def mul_series_def
    unfolding p q zip_map2 zip_map4
    by simp
qed

lemma select_map: "select xs (map P xs) = filter P xs"
  by (induction xs) (simp_all add: select_def)

lemma mask_and_map: "mask_and (map P xs) (map Q xs) = map (\<lambda>x. P x \<and> Q x) xs"
  by (induction xs) (simp_all add: mask_and_def)

lemma filtered_df_filter: "filtered_df d fs = filter (keeps fs) d"
proof -
  have "filtered_df d fs = select d (map (keeps fs) d)"
    unfolding filtered_df_def isin_def between_def
    by (simp add: mask_and_map o_def keeps_def [abs_def])
  then show ?thesis by (simp add: select_map)
qed


lemma groupby_keys:
  "map fst (groupby_sum key val frame) = sort (remdups (dropna (map key frame)))"
  by (simp add: groupby_sum_def o_def)

lemma dropna_Nil: "(dropna (map f xs) = []) = list_all (\<lambda>r. f r = None) xs"
  by (induction xs) (auto simp: dropna_def split: option.splits)

lemma sort_Nil: "(sort xs = []) = (xs = [])"
  using length_sort [of "\<lambda>x. x" xs] by (cases xs) auto

lemma groupby_Nil: "(groupby_sum key val frame = []) = list_all (\<lambda>r. key r = None) frame"
proof -
  have "(groupby_sum key val frame = []) = (map fst (groupby_sum key val frame) = [])"
    by simp
  also have "\<dots> = (dropna (map key frame) = [])"
    unfolding groupby_keys by (simp add: sort_Nil)
  finally show ?thesis by (simp add: dropna_Nil)
qed

lemma count_list_distinct: "distinct cols \<Longrightarrow> n \<in> set cols \<Longrightarrow> count_list cols n = 1"
  by (induction cols) auto

lemma need_series_distinct:
  "distinct cols \<Longrightarrow>
   need_series e (getitem cols n) = (if n \<in> set cols then Inr () else Inl (KeyError n))"
  by (simp add: need_series_def getitem_def count_list_distinct)

lemma rename_dict_apply:
  "rename_dict m c =
     (if c = quantity_col m then Some ''Quantity''
      else if c = price_col m then Some ''Price''
      else if c = product_col m then Some ''Product''
      else if c = region_col m then Some ''Region'' else None)"
  by (simp add: rename_dict_def)

lemma rename_generic_inj:
  fixes r p pr q nR nP nPr nQ :: 'a
  assumes d: "distinct [nR, nP, nPr, nQ]"
    and f: "\<And>c. f c = (if c = q then nQ else if c = pr then nPr else if c = p then nP
                        else if c = r then nR else c)"
    and h: "\<And>n. n \<in> {nR, nP, nPr, nQ} \<Longrightarrow> n \<in> S \<Longrightarrow> n \<in> {r, p, pr, q}"
  shows "inj_on f S"
proof (rule inj_onI)
  fix x y assume x: "x \<in> S" and y: "y \<in> S" and e: "f x = f y"
  have k: "c \<in> {r, p, pr, q} \<Longrightarrow> f c \<in> {nR, nP, nPr, nQ}" for c
    by (auto simp: f)
  have u: "c \<notin> {r, p, pr, q} \<Longrightarrow> f c = c" for c
    by (auto simp: f)
  show "x = y"
  proof (cases "x \<in> {r, p, pr, q}")
    case True
    note xr = this
    show ?thesis
    proof (cases "y \<in> {r, p, pr, q}")
      case True
      with xr e d show ?thesis unfolding f by (auto split: if_splits)
    next
      case False
      then have "f y = y" by (rule u)
      with e k [OF xr] have "y \<in> {nR, nP, nPr, nQ}" by simp
      from h [OF this y] False show ?thesis by simp
    qed
  next
    case False
    note xn = this
    then have fx: "f x = x" by (rule u)
    show ?thesis
    proof (cases "y \<in> {r, p, pr, q}")
      case True
      from e fx k [OF True] have "x \<in> {nR, nP, nPr, nQ}" by simp
      from h [OF this x] xn show ?thesis by simp
    next
      case False
      then have "f y = y" by (rule u)
      with fx e show ?thesis by simp
    qed
  qed
qed

lemma rename_generic_mem:
  fixes r p pr q nR nP nPr nQ :: 'a
  assumes d: "distinct [nR, nP, nPr, nQ]"
    and f: "\<And>c. f c = (if c = q then nQ else if c = pr then nPr else if c = p then nP
                        else if c = r then nR else c)"
    and h: "\<And>n. n \<in> {nR, nP, nPr, nQ} \<Longrightarrow> n \<in> S \<Longrightarrow> n \<in> {r, p, pr, q}"
    and s: "{r, p, pr, q} \<subseteq> S"
  shows "nQ \<in> f ` S"
    and "nPr \<in> f ` S \<longleftrightarrow> pr \<noteq> q"
    and "nP \<in> f ` S \<longleftrightarrow> p \<noteq> pr \<and> p \<noteq> q"
    and "nR \<in> f ` S \<longleftrightarrow> r \<noteq> p \<and> r \<noteq> pr \<and> r \<noteq> q"
proof -
  have fq: "f q = nQ" by (simp add: f)
  with s show "nQ \<in> f ` S" by (metis image_eqI insert_subset)
  have k: "c \<notin> {r, p, pr, q} \<Longrightarrow> f c = c" for c
    by (auto simp: f)
  have g: "n \<in> {nR, nP, nPr, nQ} \<Longrightarrow> n \<in> f ` S \<Longrightarrow> \<exists>c \<in> {r, p, pr, q}. f c = n" for n
  proof -
    assume n: "n \<in> {nR, nP, nPr, nQ}" and "n \<in> f ` S"
    then obtain c where c: "c \<in> S" "f c = n" by auto
    show ?thesis
    proof (cases "c \<in> {r, p, pr, q}")
      case True with c show ?thesis by blast
    next
      case False
      then have "c = n" using k c by simp
      with h [OF n] c False show ?thesis by simp
    qed
  qed
  show "nPr \<in> f ` S \<longleftrightarrow> pr \<noteq> q"
  proof
    assume "nPr \<in> f ` S"
    then obtain c where "c \<in> {r, p, pr, q}" "f c = nPr" using g by blast
    with d show "pr \<noteq> q" unfolding f by (auto split: if_splits)
  next
    assume "pr \<noteq> q"
    then have "f pr = nPr" by (simp add: f)
    with s show "nPr \<in> f ` S" by (metis image_eqI insert_subset)
  qed
  show "nP \<in> f ` S \<longleftrightarrow> p \<noteq> pr \<and> p \<noteq> q"
  proof
    assume "nP \<in> f ` S"
    then obtain c where "c \<in> {r, p, pr, q}" "f c = nP" using g by blast
    with d show "p \<noteq> pr \<and> p \<noteq> q" unfolding f by (auto split: if_splits)
  next
    assume "p \<noteq> pr \<and> p \<noteq> q"
    then have "f p = nP" by (simp add: f)
    with s show "nP \<in> f ` S" by (metis image_eqI insert_subset)
  qed
  show "nR \<in> f ` S \<longleftrightarrow> r \<noteq> p \<and> r \<noteq> pr \<and> r \<noteq> q"
  proof
    assume "nR \<in> f ` S"
    then obtain c where "c \<in> {r, p, pr, q}" "f c = nR" using g by blast
    with d show "r \<noteq> p \<and> r \<noteq> pr \<and> r \<noteq> q" unfolding f by (auto split: if_splits)
  next
    assume "r \<noteq> p \<and> r \<noteq> pr \<and> r \<noteq> q"
    then have "f r = nR" by (simp add: f)
    with s show "nR \<in> f ` S" by (metis image_eqI insert_subset)
  qed
qed

lemma names_distinct: "distinct [''Region'', ''Product'', ''Price'', ''Quantity'']"
  by simp

lemma rename_label:
  "(case rename_dict m c of None \<Rightarrow> c | Some n \<Rightarrow> n) =
     (if c = quantity_col m then ''Quantity''
      else if c = price_col m then ''Price''
      else if c = product_col m then ''Product''
      else if c = region_col m then ''Region'' else c)"
  by (simp add: rename_dict_apply)

lemma plain_table_names:
  assumes "plain_table columns m"
  shows "n \<in> {''Region'', ''Product'', ''Price'', ''Quantity''} \<Longrightarrow> n \<in> set columns \<Longrightarrow>
         n \<in> {region_col m, product_col m, price_col m, quantity_col m}"
  using assms unfolding plain_table_def canonical_names_def role_cols_def
  by (elim conjE insertE emptyE) simp_all

lemma plain_table_roles:
  assumes "plain_table columns m"
  shows "{region_col m, product_col m, price_col m, quantity_col m} \<subseteq> set columns"
  using assms by (simp add: plain_table_def role_cols_def)

lemma rename_distinct:
  assumes "plain_table columns m"
  shows "distinct (rename (rename_dict m) columns)"
proof -
  have "inj_on (\<lambda>c. case rename_dict m c of None \<Rightarrow> c | Some n \<Rightarrow> n) (set columns)"
    by (rule rename_generic_inj [OF names_distinct rename_label plain_table_names [OF assms]])
  with assms show ?thesis
    by (simp add: rename_def distinct_map plain_table_def)
qed

lemma rename_mem:
  assumes "plain_table columns m"
  shows "''Quantity'' \<in> set (rename (rename_dict m) columns)"
    and "''Price'' \<in> set (rename (rename_dict m) columns) \<longleftrightarrow> price_col m \<noteq> quantity_col m"
    and "''Product'' \<in> set (rename (rename_dict m) columns) \<longleftrightarrow>
           product_col m \<noteq> price_col m \<and> product_col m \<noteq> quantity_col m"
    and "''Region'' \<in> set (rename (rename_dict m) columns) \<longleftrightarrow>
           region_col m \<noteq> product_col m \<and> region_col m \<noteq> price_col m \<and>
           region_col m \<noteq> quantity_col m"
  unfolding rename_def set_map
  using rename_generic_mem [OF names_distinct rename_label plain_table_names [OF assms]
      plain_table_roles [OF assms]]
  by blast+

lemma setitem_distinct: "distinct cols \<Longrightarrow> distinct (setitem cols n)"
  by (simp add: setitem_def)

lemma setitem_mem: "x \<in> set (setitem cols n) \<longleftrightarrow> x = n \<or> x \<in> set cols"
  by (auto simp: setitem_def)

lemma df_columns_plain:
  assumes pt: "plain_table columns m"
  shows "df_columns columns m =
     (if price_col m = quantity_col m then Inl (KeyError ''Price'')
      else if region_col m = product_col m \<or> region_col m = price_col m \<or>
              region_col m = quantity_col m then Inl (KeyError ''Region'')
      else if product_col m = price_col m \<or> product_col m = quantity_col m
        then Inl (KeyError ''Product'')
      else Inr (if date_col m \<noteq> ''(none)''
                then setitem (setitem (rename (rename_dict m) columns) ''Revenue'') ''Date''
                else setitem (rename (rename_dict m) columns) ''Revenue''))"
proof -
  let ?c0 = "rename (rename_dict m) columns"
  let ?c1 = "setitem ?c0 ''Revenue''"
  let ?c2 = "setitem ?c1 ''Date''"
  have d0: "distinct ?c0" by (rule rename_distinct [OF pt])
  have d1: "distinct ?c1" by (rule setitem_distinct [OF d0])
  have d2: "distinct ?c2" by (rule setitem_distinct [OF d1])
  have p: "need_series TypeError (getitem ?c0 ''Price'') =
      (if price_col m = quantity_col m then Inl (KeyError ''Price'') else Inr ())"
    by (simp add: need_series_distinct [OF d0] rename_mem [OF pt])
  have q: "need_series TypeError (getitem ?c0 ''Quantity'') = Inr ()"
    by (simp add: need_series_distinct [OF d0] rename_mem [OF pt])
  have dc: "distinct columns" using pt by (simp add: plain_table_def)
  have dt: "date_col m \<noteq> ''(none)'' \<Longrightarrow>
      need_series ValueError (getitem columns (date_col m)) = Inr ()"
    using pt by (simp add: need_series_distinct [OF dc] plain_table_def)
  have r1: "need_series AttributeError (getitem ?c1 ''Region'') =
      (if region_col m = product_col m \<or> region_col m = price_col m \<or>
          region_col m = quantity_col m then Inl (KeyError ''Region'') else Inr ())"
    by (simp add: need_series_distinct [OF d1] setitem_mem rename_mem [OF pt])
  have r2: "need_series AttributeError (getitem ?c2 ''Region'') =
      (if region_col m = product_col m \<or> region_col m = price_col m \<or>
          region_col m = quantity_col m then Inl (KeyError ''Region'') else Inr ())"
    by (simp add: need_series_distinct [OF d2] setitem_mem rename_mem [OF pt])
  have p1: "need_series AttributeError (getitem ?c1 ''Product'') =
      (if product_col m = price_col m \<or> product_col m = quantity_col m
       then Inl (KeyError ''Product'') else Inr ())"
    by (simp add: need_series_distinct [OF d1] setitem_mem rename_mem [OF pt])
  have p2: "need_series AttributeError (getitem ?c2 ''Product'') =
      (if product_col m = price_col m \<or> product_col m = quantity_col m
       then Inl (KeyError ''Product'') else Inr ())"
    by (simp add: need_series_distinct [OF d2] setitem_mem rename_mem [OF pt])
  show ?thesis
  proof (cases "date_col m = ''(none)''")
    case True
    then show ?thesis
      unfolding df_columns_def Let_def by (simp add: p q r1 p1)
  next
    case False
    then show ?thesis
      unfolding df_columns_def Let_def by (simp add: p q dt [OF False] r2 p2)
  qed
qed

lemma parse_decimal_examples:
  "parse_decimal ''2'' = Some (Whole 2)" "parse_decimal ''abc'' = None"
  by (simp_all add: parse_decimal_def digit_of_def Let_def)

lemma scenario_df:
  "df parse_decimal
     [\<lparr>src_Region = Some ''East'', src_Product = Some ''Pen'', src_Price = Str ''2'',
       src_Quantity = Num (Whole 10), src_Date = None\<rparr>,
      \<lparr>src_Region = Some ''West'', src_Product = Some ''Pen'', src_Price = Str ''abc'',
       src_Quantity = Num (Whole 5), src_Date = None\<rparr>] =
     [\<lparr>Region = Some ''East'', Product = Some ''Pen'', Price = Some 2, Quantity = Some 10,
       Revenue = Some 20, Date = None\<rparr>,
      \<lparr>Region = Some ''West'', Product = Some ''Pen'', Price = None, Quantity = Some 5,
       Revenue = None, Date = None\<rparr>]"
  by (simp add: df_rowwise parse_decimal_examples safe_numeric_def int64_column_def)

lemma scenario_filters:
  "default_filters
     [\<lparr>Region = Some ''East'', Product = Some ''Pen'', Price = Some 2, Quantity = Some 10,
       Revenue = Some 20, Date = None\<rparr>,
      \<lparr>Region = Some ''West'', Product = Some ''Pen'', Price = None, Quantity = Some 5,
       Revenue = None, Date = None\<rparr>] =
     \<lparr>region_filter = [''East'', ''West''], product_filter = [''Pen''],
      price_range = (2, 2), qty_range = (5, 10)\<rparr>"
  by (simp add: default_filters_def dropna_def series_min_def series_max_def)

lemma scenario_final:
  "final_df False default_date_input
     (df parse_decimal
       [\<lparr>src_Region = Some ''East'', src_Product = Some ''Pen'', src_Price = Str ''2'',
         src_Quantity = Num (Whole 10), src_Date = None\<rparr>,
        \<lparr>src_Region = Some ''West'', src_Product = Some ''Pen'', src_Price = Str ''abc'',
         src_Quantity = Num (Whole 5), src_Date = None\<rparr>])
     (default_filters
       (df parse_decimal
         [\<lparr>src_Region = Some ''East'', src_Product = Some ''Pen'', src_Price = Str ''2'',
           src_Quantity = Num (Whole 10), src_Date = None\<rparr>,
          \<lparr>src_Region = Some ''West'', src_Product = Some ''Pen'', src_Price = Str ''abc'',
           src_Quantity = Num (Whole 5), src_Date = None\<rparr>])) =
     [\<lparr>Region = Some ''East'', Product = Some ''Pen'', Price = Some 2, Quantity = Some 10,
       Revenue = Some 20, Date = None\<rparr>]"
  unfolding scenario_df scenario_filters
  by (simp add: final_df_def date_filtered_def filtered_df_filter keeps_def)

lemma groupby_entries:
  "list_all (\<lambda>(k, v). v = series_sum (map val (filter (\<lambda>r. key r = Some k) frame)))
     (groupby_sum key val frame)"
  by (simp add: groupby_sum_def list_all_iff)





lemma dropna_month:
  "dropna (map (\<lambda>r. map_option f (g r)) (filter (\<lambda>r. g r \<noteq> None) xs)) = map f (dropna (map g xs))"
  by (induction xs) (auto simp: dropna_def)

lemma trend_keys:
  "map fst (trend_df fd) = sort (remdups (map month_start (dropna (map Date fd))))"
  unfolding trend_df_def Let_def groupby_keys dropna_month ..

lemma filter_dated:
  "filter (\<lambda>r. map_option f (g r) = Some k) (filter (\<lambda>r. g r \<noteq> None) xs) =
   filter (\<lambda>r. map_option f (g r) = Some k) xs"
  by (induction xs) auto

section \<open>Claims\<close>

text \<open>
  C1: the categorical and numeric-range step returns a subsequence of its input, in
  order; it keeps exactly the rows whose Region and Product are selected and whose Price
  and Quantity lie in their ranges, bounds included; no kept row has a missing Price or
  Quantity, also under the default filters.
\<close>

theorem C1_filter_engine:
  "subseq (filtered_df d fs) d \<and>
   filtered_df d fs =
     filter (\<lambda>r. (\<exists>v. Region r = Some v \<and> v \<in> set (region_filter fs)) \<and>
                 (\<exists>v. Product r = Some v \<and> v \<in> set (product_filter fs)) \<and>
                 (\<exists>p. Price r = Some p \<and>
                      fst (price_range fs) \<le> p \<and> p \<le> snd (price_range fs)) \<and>
                 (\<exists>q. Quantity r = Some q \<and>
                      fst (qty_range fs) \<le> q \<and> q \<le> snd (qty_range fs))) d \<and>
   list_all (\<lambda>r. Price r \<noteq> None \<and> Quantity r \<noteq> None) (filtered_df d fs) \<and>
   list_all (\<lambda>r. Price r \<noteq> None \<and> Quantity r \<noteq> None) (filtered_df d (default_filters d))"
proof -
  have k: "keeps fs =
      (\<lambda>r. (\<exists>v. Region r = Some v \<and> v \<in> set (region_filter fs)) \<and>
           (\<exists>v. Product r = Some v \<and> v \<in> set (product_filter fs)) \<and>
           (\<exists>p. Price r = Some p \<and> fst (price_range fs) \<le> p \<and> p \<le> snd (price_range fs)) \<and>
           (\<exists>q. Quantity r = Some q \<and> fst (qty_range fs) \<le> q \<and> q \<le> snd (qty_range fs)))"
    by (rule ext) (auto simp: keeps_def split: option.splits)
  have m: "list_all (\<lambda>r. Price r \<noteq> None \<and> Quantity r \<noteq> None) (filtered_df d f)" for f
    by (auto simp: filtered_df_filter list_all_iff keeps_def split: option.splits)
  show ?thesis
    using m [of fs] m [of "default_filters d"] by (simp add: filtered_df_filter k)
qed




text \<open>
  C3, as the code has it: for the two rows (East, Pen, 2, 10) and (West, Pen, abc, 5),
  no Date column and the default filters, the Revenue column is 20 and missing, and one
  Price is missing in the table; the default price range drops the second row, so the
  filtered table is the first row alone, the missing-value report, which is taken on
  the filtered table, counts 0 for Price, and the total Revenue is 20.
\<close>

theorem C3_scenario:
  "(let raw_df =
         [\<lparr>src_Region = Some ''East'', src_Product = Some ''Pen'', src_Price = Str ''2'',
           src_Quantity = Num (Whole 10), src_Date = None\<rparr>,
          \<lparr>src_Region = Some ''West'', src_Product = Some ''Pen'', src_Price = Str ''abc'',
           src_Quantity = Num (Whole 5), src_Date = None\<rparr>];
        d = df parse_decimal raw_df;
        fd = final_df False default_date_input d (default_filters d)
    in map Revenue d = [Some 20, None] \<and>
       isna_sum (map Price d) = 1 \<and>
       fd = [\<lparr>Region = Some ''East'', Product = Some ''Pen'', Price = Some 2,
              Quantity = Some 10, Revenue = Some 20, Date = None\<rparr>] \<and>
       map_of (missing False fd) ''Price'' = Some 0 \<and>
       total_revenue fd = 20)"
  unfolding Let_def scenario_final
  by (simp add: scenario_df missing_def isna_sum_def total_revenue_def series_sum_def
      dropna_def)

theorem C3_missing_count_counterexample:
  "(let raw_df =
         [\<lparr>src_Region = Some ''East'', src_Product = Some ''Pen'', src_Price = Str ''2'',
           src_Quantity = Num (Whole 10), src_Date = None\<rparr>,
          \<lparr>src_Region = Some ''West'', src_Product = Some ''Pen'', src_Price = Str ''abc'',
           src_Quantity = Num (Whole 5), src_Date = None\<rparr>];
        d = df parse_decimal raw_df;
        fd = final_df False default_date_input d (default_filters d)
    in \<not> (map Revenue d = [Some 20, None] \<and>
          map_of (missing False fd) ''Price'' = Some 1 \<and>
          total_revenue fd = 20))"
  unfolding Let_def scenario_final
  by (simp add: missing_def isna_sum_def)

text \<open>
  C4: when the filters leave no row, the key metrics are still computed: total Revenue
  and total Quantity are 0, and the two means are the no-value marker, which is not the
  number 0.
\<close>

theorem C4_empty_result_metrics:
  "final_df has_date date_input d fs = [] \<Longrightarrow>
   total_revenue (final_df has_date date_input d fs) = 0 \<and>
   total_units (final_df has_date date_input d fs) = 0 \<and>
   avg_price (final_df has_date date_input d fs) = None \<and>
   avg_units (final_df has_date date_input d fs) = None \<and>
   avg_price (final_df has_date date_input d fs) \<noteq> Some 0 \<and>
   avg_units (final_df has_date date_input d fs) \<noteq> Some 0"
  by (simp add: total_revenue_def total_units_def avg_price_def avg_units_def
      series_sum_def series_mean_def dropna_def)

theorem C4_empty_result_metrics_witness:
  "final_df False default_date_input
     [\<lparr>Region = Some ''East'', Product = Some ''Pen'', Price = Some 2, Quantity = Some 10,
       Revenue = Some 20, Date = None\<rparr>]
     \<lparr>region_filter = [''West''], product_filter = [''Pen''],
      price_range = (2, 2), qty_range = (10, 10)\<rparr> = [] \<and>
   total_revenue (final_df False default_date_input
     [\<lparr>Region = Some ''East'', Product = Some ''Pen'', Price = Some 2, Quantity = Some 10,
       Revenue = Some 20, Date = None\<rparr>]
     \<lparr>region_filter = [''West''], product_filter = [''Pen''],
      price_range = (2, 2), qty_range = (10, 10)\<rparr>) = 0 \<and>
   avg_price (final_df False default_date_input
     [\<lparr>Region = Some ''East'', Product = Some ''Pen'', Price = Some 2, Quantity = Some 10,
       Revenue = Some 20, Date = None\<rparr>]
     \<lparr>region_filter = [''West''], product_filter = [''Pen''],
      price_range = (2, 2), qty_range = (10, 10)\<rparr>) = None"
proof -
  have e: "final_df False default_date_input
     [\<lparr>Region = Some ''East'', Product = Some ''Pen'', Price = Some 2, Quantity = Some 10,
       Revenue = Some 20, Date = None\<rparr>]
     \<lparr>region_filter = [''West''], product_filter = [''Pen''],
      price_range = (2, 2), qty_range = (10, 10)\<rparr> = []"
    by (simp add: final_df_def date_filtered_def filtered_df_filter keeps_def)
  from C4_empty_result_metrics [OF e] e show ?thesis by simp
qed



text \<open>
  C6: the monthly trend has one point per calendar month in which a row of the filtered
  table is dated: every key is midnight of the first day of a month, the keys are exactly
  the months of the dated rows, no month occurs twice, the points are in ascending order
  of month, each value is the Revenue sum of the rows dated in that month, and the trend
  is empty exactly when no row has a Date.
\<close>

theorem C6_trend_sorted_distinct:
  "sorted (map fst (trend_df fd)) \<and> distinct (map fst (trend_df fd)) \<and>
   list_all (\<lambda>(y, m, d, s). d = 1 \<and> s = 0) (map fst (trend_df fd)) \<and>
   distinct (map (\<lambda>(y, m, d, s). (y, m)) (map fst (trend_df fd))) \<and>
   set (map fst (trend_df fd)) =
     (\<lambda>(y, m, d, s). (y, m, 1, 0)) ` set (dropna (map Date fd)) \<and>
   list_all (\<lambda>(k, v). v = series_sum (map Revenue
               (filter (\<lambda>r. case Date r of None \<Rightarrow> False
                            | Some (y, m, d, s) \<Rightarrow> k = (y, m, 1, 0)) fd)))
     (trend_df fd) \<and>
   (trend_df fd = []) = list_all (\<lambda>r. Date r = None) fd"
proof -
  have ms: "month_start = (\<lambda>(y, m, d, s). (y, m, 1, 0))"
    by (rule ext) (simp add: month_start_def split: prod.splits)
  have e: "(trend_df fd = []) = list_all (\<lambda>r. Date r = None) fd"
    unfolding trend_df_def Let_def groupby_Nil list_all_iff by auto
  have k: "set (map fst (trend_df fd)) =
      (\<lambda>(y, m, d, s). (y, m, 1, 0)) ` set (dropna (map Date fd))"
    unfolding trend_keys ms by simp
  have f: "list_all (\<lambda>(y, m, d, s). d = 1 \<and> s = 0) (map fst (trend_df fd))"
    unfolding list_all_iff k by auto
  have "inj_on (\<lambda>(y, m, d, s). (y, m)) (set (map fst (trend_df fd)))"
    unfolding k by (auto simp: inj_on_def)
  then have i: "distinct (map (\<lambda>(y, m, d, s). (y, m)) (map fst (trend_df fd)))"
    unfolding distinct_map [of _ "map fst (trend_df fd)"] by (simp add: trend_keys)
  have q: "(\<lambda>r. map_option month_start (Date r) = Some k) =
      (\<lambda>r. case Date r of None \<Rightarrow> False | Some (y, m, d, s) \<Rightarrow> k = (y, m, 1, 0))" for k
    by (rule ext) (auto simp: ms split: option.splits)
  have "list_all (\<lambda>(k, v). v = series_sum (map Revenue
               (filter (\<lambda>r. map_option month_start (Date r) = Some k) fd)))
     (trend_df fd)"
    unfolding trend_df_def Let_def
    using groupby_entries [of Revenue "\<lambda>r. map_option month_start (Date r)"
        "filter (\<lambda>r. Date r \<noteq> None) fd"]
    unfolding filter_dated .
  then have v: "list_all (\<lambda>(k, v). v = series_sum (map Revenue
               (filter (\<lambda>r. case Date r of None \<Rightarrow> False
                            | Some (y, m, d, s) \<Rightarrow> k = (y, m, 1, 0)) fd)))
     (trend_df fd)"
    unfolding q .
  from e k f i v show ?thesis by (simp add: trend_keys)
qed

text \<open>
  C7: with the date picker left at its default range, a row dated 15 January 2024, 13:00
  is the only row; the range is 15 January to 15 January, the row's Date falls on the end
  day, and the date filter drops it.
\<close>

theorem C7_end_day_row_dropped:
  "series_max [Some ((2024, 1, 15, 46800) :: timestamp)] = Some (2024, 1, 15, 46800) \<and>
   default_date_input (date_of (2024, 1, 15, 46800), date_of (2024, 1, 15, 46800)) =
     [(2024, 1, 15), (2024, 1, 15)] \<and>
   date_filtered True default_date_input
     [\<lparr>Region = Some ''East'', Product = Some ''Pen'', Price = Some 2, Quantity = Some 10,
       Revenue = Some 20, Date = Some (2024, 1, 15, 46800)\<rparr>] = []"
  by (simp add: date_filtered_def default_date_input_def series_min_def series_max_def
      dropna_def date_of_def to_datetime_def select_def mask_and_def series_ge_def
      series_le_def)

text \<open>
  C9, as the code has it: for a table with pairwise distinct headers, four pairwise
  distinct role columns, and no canonical name on a column left unmapped, the exported
  header is the table's own header list, in the table's column order, with each role
  column renamed to its canonical name and every other column kept, followed by Revenue
  and, when a Date column is mapped, by Date (each only if no column has that name yet).
  It holds every canonical name, and the export has one data record per row of the
  filtered table.
\<close>

theorem C9_export_header:
  assumes "plain_table columns m" and "distinct (role_cols m)"
  shows "df_columns columns m =
           Inr (if date_col m \<noteq> ''(none)''
                then setitem (setitem (rename (rename_dict m) columns) ''Revenue'') ''Date''
                else setitem (rename (rename_dict m) columns) ''Revenue'') \<and>
         rename (rename_dict m) columns =
           map (\<lambda>c. if c = region_col m then ''Region''
                     else if c = product_col m then ''Product''
                     else if c = price_col m then ''Price''
                     else if c = quantity_col m then ''Quantity'' else c) columns \<and>
         (\<exists>h. df_columns columns m = Inr h \<and> fst (to_csv h fd) = h \<and>
              length (snd (to_csv h fd)) = length fd \<and>
              list_all (\<lambda>n. n \<in> set h) (canonical_names @ [''Revenue'']) \<and>
              (date_col m = ''(none)'' \<or> ''Date'' \<in> set h))"
proof -
  from assms(2) have dr:
    "price_col m \<noteq> quantity_col m" "region_col m \<noteq> product_col m"
    "region_col m \<noteq> price_col m" "region_col m \<noteq> quantity_col m"
    "product_col m \<noteq> price_col m" "product_col m \<noteq> quantity_col m"
    by (auto simp: role_cols_def)
  let ?h = "if date_col m \<noteq> ''(none)''
            then setitem (setitem (rename (rename_dict m) columns) ''Revenue'') ''Date''
            else setitem (rename (rename_dict m) columns) ''Revenue''"
  have a: "df_columns columns m = Inr ?h"
    by (simp only: df_columns_plain [OF assms(1)] dr if_False simp_thms)
  have b: "rename (rename_dict m) columns =
           map (\<lambda>c. if c = region_col m then ''Region''
                     else if c = product_col m then ''Product''
                     else if c = price_col m then ''Price''
                     else if c = quantity_col m then ''Quantity'' else c) columns"
    unfolding rename_def rename_label using dr by (intro map_cong refl) auto
  have c: "list_all (\<lambda>n. n \<in> set ?h) (canonical_names @ [''Revenue''])"
    using rename_mem [OF assms(1)] dr by (simp add: canonical_names_def setitem_mem)
  have d: "date_col m = ''(none)'' \<or> ''Date'' \<in> set ?h"
    by (simp add: setitem_mem)
  from a b c d show ?thesis by (simp add: to_csv_def)
qed

theorem C9_export_header_witness:
  "plain_table [''Day'', ''Region'', ''Product'', ''Price'', ''Quantity'', ''Notes'']
     \<lparr>region_col = ''Region'', product_col = ''Product'', price_col = ''Price'',
      quantity_col = ''Quantity'', date_col = ''Day''\<rparr> \<and>
   distinct (role_cols
     \<lparr>region_col = ''Region'', product_col = ''Product'', price_col = ''Price'',
      quantity_col = ''Quantity'', date_col = ''Day''\<rparr>) \<and>
   df_columns [''Day'', ''Region'', ''Product'', ''Price'', ''Quantity'', ''Notes'']
     \<lparr>region_col = ''Region'', product_col = ''Product'', price_col = ''Price'',
      quantity_col = ''Quantity'', date_col = ''Day''\<rparr> =
     Inr [''Day'', ''Region'', ''Product'', ''Price'', ''Quantity'', ''Notes'', ''Revenue'',
          ''Date'']"
proof -
  let ?m = "\<lparr>region_col = ''Region'', product_col = ''Product'', price_col = ''Price'',
      quantity_col = ''Quantity'', date_col = ''Day''\<rparr>"
  let ?c = "[''Day'', ''Region'', ''Product'', ''Price'', ''Quantity'', ''Notes'']"
  have p: "plain_table ?c ?m"
    by (simp add: plain_table_def role_cols_def canonical_names_def)
  have d: "distinct (role_cols ?m)"
    by (simp add: role_cols_def)
  have r: "rename (rename_dict ?m) ?c =
      [''Day'', ''Region'', ''Product'', ''Price'', ''Quantity'', ''Notes'']"
    by (simp add: rename_def rename_dict_def)
  have "df_columns ?c ?m =
      Inr [''Day'', ''Region'', ''Product'', ''Price'', ''Quantity'', ''Notes'', ''Revenue'',
           ''Date'']"
    using C9_export_header [OF p d, of "[]", THEN conjunct1] by (simp add: r setitem_def)
  with p d show ?thesis by (intro conjI)
qed

theorem C9_header_counterexample:
  "df_columns [''Region'', ''Product'', ''Price'', ''Quantity'', ''Notes'']
     \<lparr>region_col = ''Region'', product_col = ''Product'', price_col = ''Price'',
      quantity_col = ''Quantity'', date_col = ''(none)''\<rparr> =
     Inr [''Region'', ''Product'', ''Price'', ''Quantity'', ''Notes'', ''Revenue''] \<and>
   fst (to_csv [''Region'', ''Product'', ''Price'', ''Quantity'', ''Notes'', ''Revenue'']
          ([] :: row list)) \<noteq>
     [''Region'', ''Product'', ''Price'', ''Quantity'', ''Revenue'']"
  by (simp add: df_columns_def rename_def rename_dict_def getitem_def need_series_def
      setitem_def to_csv_def)

text \<open>
  C10, as the code has it: for a table with pairwise distinct headers and no canonical
  name on a column left unmapped, a role whose column is also given to a later role (in
  the order Region, Product, Price, Quantity) loses its canonical column; when two roles
  share a column, the run stops with KeyError at the first read of a lost column, Price
  before Region before Product; and the four canonical columns all exist exactly when
  the four role columns are pairwise distinct.
\<close>

theorem C10_duplicate_roles:
  assumes "plain_table columns m"
  shows "(\<not> distinct (role_cols m) \<longrightarrow>
            df_columns columns m =
              Inl (KeyError (if price_col m = quantity_col m then ''Price''
                             else if region_col m = product_col m \<or>
                                     region_col m = price_col m \<or>
                                     region_col m = quantity_col m then ''Region''
                             else ''Product''))) \<and>
         (''Price'' \<in> set (rename (rename_dict m) columns) \<longleftrightarrow>
            price_col m \<noteq> quantity_col m) \<and>
         (''Product'' \<in> set (rename (rename_dict m) columns) \<longleftrightarrow>
            product_col m \<noteq> price_col m \<and> product_col m \<noteq> quantity_col m) \<and>
         (''Region'' \<in> set (rename (rename_dict m) columns) \<longleftrightarrow>
            region_col m \<noteq> product_col m \<and> region_col m \<noteq> price_col m \<and>
            region_col m \<noteq> quantity_col m) \<and>
         ''Quantity'' \<in> set (rename (rename_dict m) columns) \<and>
         (list_all (\<lambda>n. n \<in> set (rename (rename_dict m) columns)) canonical_names \<longleftrightarrow>
            distinct (role_cols m)) \<and>
         ((\<exists>h. df_columns columns m = Inr h) \<longleftrightarrow> distinct (role_cols m))"
proof -
  have a: "\<not> distinct (role_cols m) \<longrightarrow>
            df_columns columns m =
              Inl (KeyError (if price_col m = quantity_col m then ''Price''
                             else if region_col m = product_col m \<or>
                                     region_col m = price_col m \<or>
                                     region_col m = quantity_col m then ''Region''
                             else ''Product''))"
    unfolding df_columns_plain [OF assms] by (auto simp: role_cols_def)
  have b: "list_all (\<lambda>n. n \<in> set (rename (rename_dict m) columns)) canonical_names \<longleftrightarrow>
            distinct (role_cols m)"
    using rename_mem [OF assms] by (auto simp: canonical_names_def role_cols_def)
  have c: "(\<exists>h. df_columns columns m = Inr h) \<longleftrightarrow> distinct (role_cols m)"
    unfolding df_columns_plain [OF assms] by (auto simp: role_cols_def)
  from a b c rename_mem [OF assms] show ?thesis by blast
qed

theorem C10_duplicate_roles_witness:
  "plain_table [''A'', ''Price'', ''Quantity'']
     \<lparr>region_col = ''A'', product_col = ''A'', price_col = ''Price'',
      quantity_col = ''Quantity'', date_col = ''(none)''\<rparr> \<and>
   \<not> distinct (role_cols
     \<lparr>region_col = ''A'', product_col = ''A'', price_col = ''Price'',
      quantity_col = ''Quantity'', date_col = ''(none)''\<rparr>) \<and>
   rename (rename_dict
     \<lparr>region_col = ''A'', product_col = ''A'', price_col = ''Price'',
      quantity_col = ''Quantity'', date_col = ''(none)''\<rparr>) [''A'', ''Price'', ''Quantity''] =
     [''Product'', ''Price'', ''Quantity''] \<and>
   df_columns [''A'', ''Price'', ''Quantity'']
     \<lparr>region_col = ''A'', product_col = ''A'', price_col = ''Price'',
      quantity_col = ''Quantity'', date_col = ''(none)''\<rparr> = Inl (KeyError ''Region'')"
proof -
  let ?m = "\<lparr>region_col = ''A'', product_col = ''A'', price_col = ''Price'',
      quantity_col = ''Quantity'', date_col = ''(none)''\<rparr>"
  let ?c = "[''A'', ''Price'', ''Quantity'']"
  have p: "plain_table ?c ?m"
    by (simp add: plain_table_def role_cols_def canonical_names_def)
  have d: "\<not> distinct (role_cols ?m)"
    by (simp add: role_cols_def)
  have r: "rename (rename_dict ?m) ?c = [''Product'', ''Price'', ''Quantity'']"
    by (simp add: rename_def rename_dict_def)
  from C10_duplicate_roles [OF p] p d r show ?thesis by simp
qed

theorem C10_keyerror_counterexample:
  "region_col \<lparr>region_col = ''A'', product_col = ''A'', price_col = ''P2'',
      quantity_col = ''Quantity'', date_col = ''(none)''\<rparr> =
   product_col \<lparr>region_col = ''A'', product_col = ''A'', price_col = ''P2'',
      quantity_col = ''Quantity'', date_col = ''(none)''\<rparr> \<and>
   list_all (\<lambda>c. c \<in> set [''A'', ''Price'', ''P2'', ''Quantity''])
     (role_cols \<lparr>region_col = ''A'', product_col = ''A'', price_col = ''P2'',
      quantity_col = ''Quantity'', date_col = ''(none)''\<rparr>) \<and>
   ''Region'' \<notin> set [''A'', ''Price'', ''P2'', ''Quantity''] \<and>
   ''Product'' \<notin> set [''A'', ''Price'', ''P2'', ''Quantity''] \<and>
   rename (rename_dict \<lparr>region_col = ''A'', product_col = ''A'', price_col = ''P2'',
      quantity_col = ''Quantity'', date_col = ''(none)''\<rparr>)
     [''A'', ''Price'', ''P2'', ''Quantity''] = [''Product'', ''Price'', ''Price'', ''Quantity''] \<and>
   df_columns [''A'', ''Price'', ''P2'', ''Quantity'']
     \<lparr>region_col = ''A'', product_col = ''A'', price_col = ''P2'',
      quantity_col = ''Quantity'', date_col = ''(none)''\<rparr> = Inl TypeError"
  by (simp add: df_columns_def rename_def rename_dict_def getitem_def need_series_def
      setitem_def role_cols_def)

end
